theory Spec2Isabelle
  imports Complex_Main
begin

section \<open>Values: floats, exceptions, arrays\<close>

text \<open>
  The simulator works on Python floats and NumPy float arrays. A float is modelled as a
  real number or the not-a-number marker; rounding and the infinities are left out, since
  the properties below are about which value is stored where, about comparisons, and
  about the one subtraction formula of the metrics. Operations and comparisons follow
  IEEE 754 on the marker: every arithmetic result with a NaN operand is NaN and every
  ordering comparison with a NaN operand is false.
\<close>

datatype pyfloat = Fin real | NaN

fun isnan :: "pyfloat \<Rightarrow> bool" where
  "isnan NaN = True"
| "isnan (Fin x) = False"

fun fle :: "pyfloat \<Rightarrow> pyfloat \<Rightarrow> bool" where
  "fle (Fin a) (Fin b) = (a \<le> b)"
| "fle a b = False"

fun flt :: "pyfloat \<Rightarrow> pyfloat \<Rightarrow> bool" where
  "flt (Fin a) (Fin b) = (a < b)"
| "flt a b = False"

definition fge :: "pyfloat \<Rightarrow> pyfloat \<Rightarrow> bool" where
  "fge a b = fle b a"

fun fsub :: "pyfloat \<Rightarrow> pyfloat \<Rightarrow> pyfloat" where
  "fsub (Fin a) (Fin b) = Fin (a - b)"
| "fsub a b = NaN"

fun fadd :: "pyfloat \<Rightarrow> pyfloat \<Rightarrow> pyfloat" where
  "fadd (Fin a) (Fin b) = Fin (a + b)"
| "fadd a b = NaN"

fun fmul :: "pyfloat \<Rightarrow> pyfloat \<Rightarrow> pyfloat" where
  "fmul (Fin a) (Fin b) = Fin (a * b)"
| "fmul a b = NaN"

text \<open>Division is used with a non-zero divisor only (the grid's step).\<close>

fun fdiv :: "pyfloat \<Rightarrow> pyfloat \<Rightarrow> pyfloat" where
  "fdiv (Fin a) (Fin b) = Fin (a / b)"
| "fdiv a b = NaN"

fun fabs :: "pyfloat \<Rightarrow> pyfloat" where
  "fabs (Fin a) = Fin \<bar>a\<bar>"
| "fabs NaN = NaN"

text \<open>
  Exceptions are values. The text of a message is kept as a constructor with the values
  the source formats into it, so that a theorem can say which index or value a message
  names. \<open>RuntimeError ctx cause\<close> is \<^verbatim>\<open>raise RuntimeError(f"{ctx}: {e}") from e\<close>:
  the second argument is the exception's \<^verbatim>\<open>__cause__\<close>. Only subclasses of
  \<^verbatim>\<open>Exception\<close> are modelled (an \<^verbatim>\<open>except Exception\<close> handler catches each of them).
\<close>

datatype message =
    FluxOutOfRange pyfloat
  | NotPositive string pyfloat
  | CircuitIsNone
  | InvalidFluxRange pyfloat pyfloat
  | NoFluxLoop
  | NeedThreeLevels
  | NeedTwoLevels
  | LevelNotAvailable int int
  | NegativeSamples int
  | NegativeDimensions
  | ArgminEmpty
  | ShapeMismatch nat nat
  | LibraryMessage nat

datatype exn =
    ValueError message
  | IndexError
  | AttributeError
  | TypeError
  | OtherError nat
  | RuntimeError string exn

text \<open>
  A two-dimensional NumPy array keeps its number of columns also when it has no row
  (\<^verbatim>\<open>np.zeros((0, 5)).shape[1] == 5\<close>), so the width is a field of its own.
\<close>

record array2d =
  ncols :: nat
  rows :: "pyfloat list list"

definition np_zeros :: "int \<Rightarrow> int \<Rightarrow> exn + array2d" where
  "np_zeros n m =
     (if n < 0 \<or> m < 0 then Inl (ValueError NegativeDimensions)
      else Inr \<lparr>ncols = nat m, rows = replicate (nat n) (replicate (nat m) (Fin 0))\<rparr>)"

text \<open>
  \<^verbatim>\<open>np.linspace(start, stop, num)\<close> with the end point included: a negative \<open>num\<close>
  raises, \<open>num = 0\<close> gives no sample, \<open>num = 1\<close> gives \<open>start\<close> alone, and otherwise
  sample \<open>i\<close> is \<open>i * step + start\<close> with \<open>step = (stop - start) / (num - 1)\<close> and the last
  sample is overwritten by \<open>stop\<close>.
\<close>

definition np_linspace :: "pyfloat \<Rightarrow> pyfloat \<Rightarrow> int \<Rightarrow> exn + pyfloat list" where
  "np_linspace start stop num =
     (if num < 0 then Inl (ValueError (NegativeSamples num))
      else
        let n = nat num in
        if n = 0 then Inr []
        else if n = 1 then Inr [start]
        else
          let step = fdiv (fsub stop start) (Fin (real (n - 1)));
              y = map (\<lambda>i. fadd (fmul (Fin (real i)) step) start) [0..<n]
          in Inr (y[n - 1 := stop]))"

text \<open>
  An index into an axis of size \<open>n\<close>: NumPy counts a negative index from the end and
  raises IndexError outside \<open>-n \<le> i < n\<close>.
\<close>

definition np_index :: "nat \<Rightarrow> int \<Rightarrow> exn + nat" where
  "np_index n i =
     (if 0 \<le> i \<and> i < int n then Inr (nat i)
      else if - int n \<le> i \<and> i < 0 then Inr (nat (int n + i))
      else Inl IndexError)"

definition column :: "array2d \<Rightarrow> int \<Rightarrow> exn + pyfloat list" where
  "column a j =
     (case np_index (ncols a) j of
        Inl e \<Rightarrow> Inl e
      | Inr k \<Rightarrow> Inr (map (\<lambda>r. r ! k) (rows a)))"

text \<open>
  \<^verbatim>\<open>np.argmin\<close> on a float vector: the scan keeps the smallest value seen and its
  position, replaces it when the next value is not \<open>\<ge>\<close> it (strictly smaller, or NaN),
  and stops at the first NaN. An empty vector raises ValueError.
\<close>

fun argmin_scan :: "pyfloat \<Rightarrow> nat \<Rightarrow> nat \<Rightarrow> pyfloat list \<Rightarrow> nat" where
  "argmin_scan mp mi i [] = mi"
| "argmin_scan mp mi i (x # xs) =
     (if \<not> fge x mp
      then (if isnan x then i else argmin_scan x i (Suc i) xs)
      else argmin_scan mp mi (Suc i) xs)"

definition np_argmin :: "pyfloat list \<Rightarrow> exn + nat" where
  "np_argmin xs =
     (case xs of
        [] \<Rightarrow> Inl (ValueError ArgminEmpty)
      | x # rest \<Rightarrow> Inr (if isnan x then 0 else argmin_scan x 0 1 rest))"

section \<open>circuit_builder: parameter validation\<close>

text \<open>
  \<^verbatim>\<open>validate_flux\<close> and \<^verbatim>\<open>validate_energy\<close> return True or raise ValueError; the handler
  logs and re-raises the same exception. The warning logged for an energy above 1000 GHz
  changes no result.
\<close>

definition validate_flux :: "pyfloat \<Rightarrow> exn + bool" where
  "validate_flux flux =
     (if \<not> (fle (Fin 0) flux \<and> fle flux (Fin 1)) then Inl (ValueError (FluxOutOfRange flux))
      else Inr True)"

definition validate_energy :: "pyfloat \<Rightarrow> string \<Rightarrow> exn + bool" where
  "validate_energy energy name =
     (if fle energy (Fin 0) then Inl (ValueError (NotPositive name energy))
      else Inr True)"

section \<open>simulator and utils: metrics of one spectrum\<close>

definition calculate_anharmonicity :: "pyfloat list \<Rightarrow> exn + pyfloat" where
  "calculate_anharmonicity energies =
     (if length energies < 3 then Inl (ValueError NeedThreeLevels)
      else
        let E0 = energies ! 0; E1 = energies ! 1; E2 = energies ! 2
        in Inr (fsub (fsub E2 E1) (fsub E1 E0)))"

text \<open>
  The metrics dictionary: a key maps to a float or to Python's None, so a value is an
  option and the dictionary a map to options.
\<close>

definition calculate_gate_metrics :: "pyfloat list \<Rightarrow> exn + (string \<rightharpoonup> pyfloat option)" where
  "calculate_gate_metrics energies =
     (if length energies < 2 then Inl (ValueError NeedTwoLevels)
      else
        let metrics = Map.empty
              (''ground_state_energy'' \<mapsto> Some (energies ! 0),
               ''first_excited_energy'' \<mapsto>
                  (if length energies > 1 then Some (energies ! 1) else None),
               ''transition_frequency'' \<mapsto>
                  (if length energies > 1 then Some (fsub (energies ! 1) (energies ! 0)) else None))
        in
          if length energies \<ge> 3
          then Inr (metrics(''anharmonicity'' \<mapsto>
                 Some (fsub (fsub (energies ! 2) (energies ! 1)) (fsub (energies ! 1) (energies ! 0)))))
          else Inr (metrics(''anharmonicity'' \<mapsto> None)))"

section \<open>utils: the minimum gap of an anti-crossing\<close>

text \<open>
  \<^verbatim>\<open>plot_anti_crossing\<close> draws the two levels and highlights the minimum gap. Matplotlib's
  \<^verbatim>\<open>ax.plot(x, y)\<close> raises ValueError when the two vectors differ in length; nothing else
  of the drawing can alter the values computed, so the figure returned is represented by
  the three values it highlights.
\<close>

record figure =
  min_gap :: pyfloat
  min_gap_flux :: pyfloat
  min_gap_idx :: nat

definition ax_plot :: "pyfloat list \<Rightarrow> pyfloat list \<Rightarrow> exn + unit" where
  "ax_plot xs ys =
     (if length xs \<noteq> length ys then Inl (ValueError (ShapeMismatch (length xs) (length ys)))
      else Inr ())"

definition gap_of :: "pyfloat list \<Rightarrow> pyfloat list \<Rightarrow> pyfloat list" where
  "gap_of c2 c1 = map (\<lambda>(b, a). fabs (fsub b a)) (zip c2 c1)"

definition plot_anti_crossing :: "pyfloat list \<Rightarrow> array2d \<Rightarrow> int \<Rightarrow> int \<Rightarrow> exn + figure" where
  "plot_anti_crossing flux_values energy_levels level1 level2 =
     (if level2 \<ge> int (ncols energy_levels)
      then Inl (ValueError (LevelNotAvailable level2 (int (ncols energy_levels) - 1)))
      else
        (case column energy_levels level1 of Inl e \<Rightarrow> Inl e | Inr c1 \<Rightarrow>
        (case ax_plot flux_values c1 of Inl e \<Rightarrow> Inl e | Inr u1 \<Rightarrow>
        (case column energy_levels level2 of Inl e \<Rightarrow> Inl e | Inr c2 \<Rightarrow>
        (case ax_plot flux_values c2 of Inl e \<Rightarrow> Inl e | Inr u2 \<Rightarrow>
          (let gap = gap_of c2 c1 in
           (case np_argmin gap of Inl e \<Rightarrow> Inl e | Inr idx \<Rightarrow>
              Inr \<lparr>min_gap = gap ! idx, min_gap_flux = flux_values ! idx,
                   min_gap_idx = idx\<rparr>)))))))"

text \<open>
  The gap between levels \<open>a\<close> and \<open>b\<close> at sweep point \<open>j\<close>, read off the table, and the
  value the minimum scan holds for a position (the running minimum for the position it
  started with, the list entry otherwise); both are used to state what the scan returns.
\<close>

definition gap_at :: "array2d \<Rightarrow> nat \<Rightarrow> nat \<Rightarrow> nat \<Rightarrow> pyfloat" where
  "gap_at E a b j = fabs (fsub (rows E ! j ! b) (rows E ! j ! a))"

definition scan_val :: "pyfloat \<Rightarrow> nat \<Rightarrow> nat \<Rightarrow> pyfloat list \<Rightarrow> nat \<Rightarrow> pyfloat" where
  "scan_val mp mi i xs r = (if r = mi then mp else xs ! (r - i))"

section \<open>simulator: the circuit, the library and the world\<close>

text \<open>
  SQcircuit is an external library. A circuit's \<^verbatim>\<open>elements\<close> dictionary lists, per edge and
  in insertion order, the elements on it; a junction or an inductor carries the list of
  flux loops it belongs to, a capacitor carries none. Loop objects are shared between
  elements, so a loop is an identifier and its \<^verbatim>\<open>value\<close> attribute lives in a store.
\<close>

type_synonym loop_id = nat

datatype element =
    LoopElem loop_id
  | Junction "loop_id list"
  | Inductor "loop_id list"
  | Capacitor

type_synonym circuit = "((nat \<times> nat) \<times> element list) list"

text \<open>
  The state the code acts on: the \<^verbatim>\<open>value\<close> of every loop, the state hidden inside the
  library's circuit object (truncation numbers, the Hamiltonian built by the last update),
  and a record of the library calls made so far, oldest first.
\<close>

datatype libcall = SetTruncNums "nat list" | Update | Diag int

record 'h world =
  loop_value :: "loop_id \<Rightarrow> pyfloat"
  lib :: 'h
  calls :: "libcall list"

text \<open>
  The library is a parameter: what \<^verbatim>\<open>circuit.trunc_nums\<close> reads (AttributeError when the
  attribute is missing), and what \<^verbatim>\<open>set_trunc_nums\<close>, \<^verbatim>\<open>update\<close> and \<^verbatim>\<open>diag\<close> do: each may
  raise, and each may change the hidden state. \<^verbatim>\<open>update\<close> and \<^verbatim>\<open>diag\<close> read the loop values.
\<close>

record ('h, 'v) sqlib =
  sq_trunc_nums :: "'h \<Rightarrow> exn + nat list option"
  sq_set_trunc_nums :: "nat list \<Rightarrow> 'h \<Rightarrow> (exn + unit) \<times> 'h"
  sq_update :: "(loop_id \<Rightarrow> pyfloat) \<Rightarrow> 'h \<Rightarrow> (exn + unit) \<times> 'h"
  sq_diag :: "(loop_id \<Rightarrow> pyfloat) \<Rightarrow> int \<Rightarrow> 'h \<Rightarrow> (exn + pyfloat list \<times> 'v) \<times> 'h"

definition call_set_trunc_nums ::
  "('h, 'v) sqlib \<Rightarrow> nat list \<Rightarrow> 'h world \<Rightarrow> (exn + unit) \<times> 'h world" where
  "call_set_trunc_nums L ns w =
     (case sq_set_trunc_nums L ns (lib w) of
        (r, h) \<Rightarrow> (r, w\<lparr>lib := h, calls := calls w @ [SetTruncNums ns]\<rparr>))"

definition call_update :: "('h, 'v) sqlib \<Rightarrow> 'h world \<Rightarrow> (exn + unit) \<times> 'h world" where
  "call_update L w =
     (case sq_update L (loop_value w) (lib w) of
        (r, h) \<Rightarrow> (r, w\<lparr>lib := h, calls := calls w @ [Update]\<rparr>))"

definition call_diag ::
  "('h, 'v) sqlib \<Rightarrow> int \<Rightarrow> 'h world \<Rightarrow> (exn + pyfloat list \<times> 'v) \<times> 'h world" where
  "call_diag L n w =
     (case sq_diag L (loop_value w) n (lib w) of
        (r, h) \<Rightarrow> (r, w\<lparr>lib := h, calls := calls w @ [Diag n]\<rparr>))"

section \<open>simulator: diagonalize_hamiltonian\<close>

text \<open>
  \<^verbatim>\<open>hasattr(circuit, 'trunc_nums') and circuit.trunc_nums is not None\<close>, inside a bare
  \<^verbatim>\<open>try/except: pass\<close>: true only when the attribute reads as a value other than None.
\<close>

definition trunc_already_set :: "('h, 'v) sqlib \<Rightarrow> 'h \<Rightarrow> bool" where
  "trunc_already_set L h =
     (case sq_trunc_nums L h of Inr (Some ns) \<Rightarrow> True | Inr None \<Rightarrow> False | Inl e \<Rightarrow> False)"

text \<open>
  When the truncation is not set: \<^verbatim>\<open>set_trunc_nums([50])\<close>; on ValueError a second try with
  \<^verbatim>\<open>[50, 50]\<close> whose failure is swallowed; any other exception of the first try leaves
  the block.
\<close>

definition configure_truncation ::
  "('h, 'v) sqlib \<Rightarrow> 'h world \<Rightarrow> (exn + unit) \<times> 'h world" where
  "configure_truncation L w =
     (if trunc_already_set L (lib w) then (Inr (), w)
      else
        (case call_set_trunc_nums L [50] w of
           (Inr u, w1) \<Rightarrow> (Inr (), w1)
         | (Inl (ValueError m), w1) \<Rightarrow>
             (case call_set_trunc_nums L [50, 50] w1 of (r, w2) \<Rightarrow> (Inr (), w2))
         | (Inl e, w1) \<Rightarrow> (Inl e, w1)))"

text \<open>
  The body of the \<^verbatim>\<open>try\<close>. After \<^verbatim>\<open>circuit.diag\<close> the checkpoint message formats
  \<^verbatim>\<open>energies[0]\<close>, which raises IndexError on an empty result.
\<close>

definition diagonalize_body ::
  "('h, 'v) sqlib \<Rightarrow> circuit option \<Rightarrow> int \<Rightarrow> 'h world
     \<Rightarrow> (exn + pyfloat list \<times> 'v) \<times> 'h world" where
  "diagonalize_body L circuit n_levels w =
     (case circuit of
        None \<Rightarrow> (Inl (ValueError CircuitIsNone), w)
      | Some c \<Rightarrow>
          (case configure_truncation L w of
             (Inl e, w1) \<Rightarrow> (Inl e, w1)
           | (Inr u, w1) \<Rightarrow>
               (case call_diag L n_levels w1 of
                  (Inl e, w2) \<Rightarrow> (Inl e, w2)
                | (Inr (eigenvals, eigenvecs), w2) \<Rightarrow>
                    (if eigenvals = [] then (Inl IndexError, w2)
                     else (Inr (eigenvals, eigenvecs), w2)))))"

text \<open>The handler: every exception of the body is wrapped, with the original as cause.\<close>

definition diagonalize_hamiltonian ::
  "('h, 'v) sqlib \<Rightarrow> circuit option \<Rightarrow> int \<Rightarrow> 'h world
     \<Rightarrow> (exn + pyfloat list \<times> 'v) \<times> 'h world" where
  "diagonalize_hamiltonian L circuit n_levels w =
     (case diagonalize_body L circuit n_levels w of
        (Inl e, w') \<Rightarrow> (Inl (RuntimeError ''Error diagonalizing Hamiltonian'' e), w')
      | (Inr r, w') \<Rightarrow> (Inr r, w'))"

section \<open>simulator: flux_sweep\<close>

text \<open>
  The search for the flux loop walks \<^verbatim>\<open>circuit.elements.values()\<close> and each list in order
  and stops at the first hit, that is, it takes the first hit of the concatenated lists:
  first an element that is itself a Loop, and failing that the first loop of the first
  element whose \<^verbatim>\<open>loops\<close> attribute is a non-empty list.
\<close>

fun first_match :: "('a \<Rightarrow> 'b option) \<Rightarrow> 'a list \<Rightarrow> 'b option" where
  "first_match f [] = None"
| "first_match f (x # xs) = (case f x of Some y \<Rightarrow> Some y | None \<Rightarrow> first_match f xs)"

fun as_loop :: "element \<Rightarrow> loop_id option" where
  "as_loop (LoopElem l) = Some l"
| "as_loop e = None"

fun first_loop_of :: "element \<Rightarrow> loop_id option" where
  "first_loop_of (Junction (l # ls)) = Some l"
| "first_loop_of (Inductor (l # ls)) = Some l"
| "first_loop_of e = None"

definition find_flux_loop :: "circuit \<Rightarrow> loop_id option" where
  "find_flux_loop c =
     (let elems = concat (map snd c) in
      case first_match as_loop elems of
        Some l \<Rightarrow> Some l
      | None \<Rightarrow> first_match first_loop_of elems)"

text \<open>
  One pass of the loop body up to the energies: set the loop's value, rebuild, diagonalize.
  The assignment to \<^verbatim>\<open>loop.value\<close> comes first and cannot fail.
\<close>

definition sweep_point ::
  "('h, 'v) sqlib \<Rightarrow> circuit \<Rightarrow> loop_id \<Rightarrow> int \<Rightarrow> pyfloat \<Rightarrow> 'h world
     \<Rightarrow> (exn + pyfloat list) \<times> 'h world" where
  "sweep_point L c loop n_levels flux_val w =
     (let w0 = w\<lparr>loop_value := (loop_value w)(loop := flux_val)\<rparr> in
      case call_update L w0 of
        (Inl e, w1) \<Rightarrow> (Inl e, w1)
      | (Inr u, w1) \<Rightarrow>
          (case diagonalize_hamiltonian L (Some c) n_levels w1 of
             (Inl e, w2) \<Rightarrow> (Inl e, w2)
           | (Inr (energies, eigenvecs), w2) \<Rightarrow> (Inr energies, w2)))"

text \<open>
  \<^verbatim>\<open>energy_levels[i, :n_store] = energies[:n_store]\<close> overwrites the first \<open>n_store\<close> slots
  of row \<open>i\<close>; the handler's \<^verbatim>\<open>energy_levels[i] = energy_levels[i-1]\<close> copies the row above
  and \<^verbatim>\<open>energy_levels[i] = np.nan\<close> fills every slot of the row.
\<close>

definition store_row :: "array2d \<Rightarrow> nat \<Rightarrow> nat \<Rightarrow> pyfloat list \<Rightarrow> array2d" where
  "store_row a i n_store energies =
     a\<lparr>rows := (rows a)[i := take n_store energies @ drop n_store (rows a ! i)]\<rparr>"

definition recover_row :: "array2d \<Rightarrow> nat \<Rightarrow> array2d" where
  "recover_row a i =
     (if i > 0 then a\<lparr>rows := (rows a)[i := rows a ! (i - 1)]\<rparr>
      else a\<lparr>rows := (rows a)[i := map (\<lambda>x. NaN) (rows a ! i)]\<rparr>)"

fun sweep_loop ::
  "('h, 'v) sqlib \<Rightarrow> circuit \<Rightarrow> loop_id \<Rightarrow> int \<Rightarrow> (nat \<times> pyfloat) list \<Rightarrow> array2d
     \<Rightarrow> 'h world \<Rightarrow> array2d \<times> 'h world" where
  "sweep_loop L c loop n_levels [] energy_levels w = (energy_levels, w)"
| "sweep_loop L c loop n_levels ((i, flux_val) # rest) energy_levels w =
     (case sweep_point L c loop n_levels flux_val w of
        (Inr energies, w') \<Rightarrow>
          (let n_store = nat (min n_levels (int (length energies)))
           in sweep_loop L c loop n_levels rest (store_row energy_levels i n_store energies) w')
      | (Inl e, w') \<Rightarrow>
          sweep_loop L c loop n_levels rest (recover_row energy_levels i) w')"

definition range_or_default :: "(pyfloat \<times> pyfloat) option \<Rightarrow> pyfloat \<times> pyfloat" where
  "range_or_default flux_range = (case flux_range of None \<Rightarrow> (Fin 0, Fin 1) | Some r \<Rightarrow> r)"

definition valid_range :: "pyfloat \<Rightarrow> pyfloat \<Rightarrow> bool" where
  "valid_range flux_min flux_max =
     (fle (Fin 0) flux_min \<and> flt flux_min flux_max \<and> fle flux_max (Fin 1))"

definition flux_sweep_body ::
  "('h, 'v) sqlib \<Rightarrow> circuit option \<Rightarrow> (pyfloat \<times> pyfloat) option \<Rightarrow> int \<Rightarrow> int \<Rightarrow> 'h world
     \<Rightarrow> (exn + pyfloat list \<times> array2d) \<times> 'h world" where
  "flux_sweep_body L circuit flux_range n_points n_levels w =
     (case range_or_default flux_range of (flux_min, flux_max) \<Rightarrow>
        if \<not> valid_range flux_min flux_max
        then (Inl (ValueError (InvalidFluxRange flux_min flux_max)), w)
        else
          (case np_linspace flux_min flux_max n_points of
             Inl e \<Rightarrow> (Inl e, w)
           | Inr flux_values \<Rightarrow>
          (case np_zeros n_points n_levels of
             Inl e \<Rightarrow> (Inl e, w)
           | Inr energy_levels \<Rightarrow>
          (case circuit of
             None \<Rightarrow> (Inl AttributeError, w)
           | Some c \<Rightarrow>
          (case find_flux_loop c of
             None \<Rightarrow> (Inl (ValueError NoFluxLoop), w)
           | Some loop \<Rightarrow>
          (case sweep_loop L c loop n_levels (enumerate 0 flux_values) energy_levels w of
             (table, w') \<Rightarrow> (Inr (flux_values, table), w')))))))"

definition flux_sweep ::
  "('h, 'v) sqlib \<Rightarrow> circuit option \<Rightarrow> (pyfloat \<times> pyfloat) option \<Rightarrow> int \<Rightarrow> int \<Rightarrow> 'h world
     \<Rightarrow> (exn + pyfloat list \<times> array2d) \<times> 'h world" where
  "flux_sweep L circuit flux_range n_points n_levels w =
     (case flux_sweep_body L circuit flux_range n_points n_levels w of
        (Inl e, w') \<Rightarrow> (Inl (RuntimeError ''Error during flux sweep'' e), w')
      | (Inr r, w') \<Rightarrow> (Inr r, w'))"

text \<open>
  The table after one pass of the loop body, by the outcome of the sample: the two
  branches of \<open>sweep_loop\<close>, named so that the loop's steps can be stated one at a time.
\<close>

definition next_table :: "int \<Rightarrow> array2d \<Rightarrow> nat \<Rightarrow> exn + pyfloat list \<Rightarrow> array2d" where
  "next_table n tbl k r =
     (case r of
        Inl e \<Rightarrow> recover_row tbl k
      | Inr energies \<Rightarrow> store_row tbl k (nat (min n (int (length energies)))) energies)"

text \<open>
  The outcome of every sample of a sweep, in order: the energies the diagonalization
  returned, or the exception that sent the sample to the handler. It replays the loop's
  own steps and is used to say which samples failed.
\<close>

fun sweep_outcomes ::
  "('h, 'v) sqlib \<Rightarrow> circuit \<Rightarrow> loop_id \<Rightarrow> int \<Rightarrow> pyfloat list \<Rightarrow> 'h world
     \<Rightarrow> (exn + pyfloat list) list" where
  "sweep_outcomes L c loop n_levels [] w = []"
| "sweep_outcomes L c loop n_levels (flux_val # rest) w =
     (case sweep_point L c loop n_levels flux_val w of
        (r, w') \<Rightarrow> r # sweep_outcomes L c loop n_levels rest w')"

section \<open>A concrete circuit and two libraries\<close>

text \<open>
  The element dictionary that \<^verbatim>\<open>build_rql_inverter\<close> builds (one junction on loop 0 and a
  capacitor on the edge from node 0 to node 1), a library whose calls always succeed and
  return the levels \<open>x\<close> and \<open>x + 1\<close> at flux \<open>x\<close>, and a library whose diagonalization
  fails at every flux outside \<open>[1/2, 3/4]\<close>.
\<close>

definition inverter_elements :: circuit where
  "inverter_elements = [((0, 1), [Junction [0], Capacitor])]"

definition steady_lib :: "(unit, unit) sqlib" where
  "steady_lib =
     \<lparr>sq_trunc_nums = (\<lambda>h. Inr (Some [50])),
      sq_set_trunc_nums = (\<lambda>ns h. (Inr (), h)),
      sq_update = (\<lambda>v h. (Inr (), h)),
      sq_diag = (\<lambda>v n h.
        (case v 0 of
           Fin x \<Rightarrow> (Inr ([Fin x, Fin (x + 1)], ()), h)
         | NaN \<Rightarrow> (Inl (OtherError 1), h)))\<rparr>"

definition flaky_lib :: "(unit, unit) sqlib" where
  "flaky_lib =
     \<lparr>sq_trunc_nums = (\<lambda>h. Inr (Some [50])),
      sq_set_trunc_nums = (\<lambda>ns h. (Inr (), h)),
      sq_update = (\<lambda>v h. (Inr (), h)),
      sq_diag = (\<lambda>v n h.
        (case v 0 of
           Fin x \<Rightarrow>
             (if x < 1 / 2 \<or> 3 / 4 < x then (Inl (OtherError 0), h)
              else (Inr ([Fin x, Fin (x + 1)], ()), h))
         | NaN \<Rightarrow> (Inl (OtherError 1), h)))\<rparr>"

definition idle_world :: "unit world" where
  "idle_world = \<lparr>loop_value = (\<lambda>l. Fin (1 / 2)), lib = (), calls = []\<rparr>"

section \<open>Metrics of one spectrum\<close>

text \<open>
  C4. For every energy sequence with at least three entries the anharmonicity is
  \<open>(e[2] - e[1]) - (e[1] - e[0])\<close>, computed by that very expression, both as the result
  of \<^verbatim>\<open>calculate_anharmonicity\<close> and under the key \<^verbatim>\<open>anharmonicity\<close> of the dictionary
  that \<^verbatim>\<open>calculate_gate_metrics\<close> returns.
\<close>

theorem anharmonicity_formula:
  assumes "3 \<le> length e"
  shows "calculate_anharmonicity e = Inr (fsub (fsub (e ! 2) (e ! 1)) (fsub (e ! 1) (e ! 0)))
    \<and> (\<exists>m. calculate_gate_metrics e = Inr m
          \<and> m ''anharmonicity'' =
              Some (Some (fsub (fsub (e ! 2) (e ! 1)) (fsub (e ! 1) (e ! 0)))))"
  using assms by (simp add: calculate_anharmonicity_def calculate_gate_metrics_def Let_def)

theorem anharmonicity_formula_witness:
  "calculate_anharmonicity [Fin 0, Fin 5, Fin (19 / 2)] = Inr (Fin (- (1 / 2)))
    \<and> (\<exists>m. calculate_gate_metrics [Fin 0, Fin 5, Fin (19 / 2)] = Inr m
          \<and> m ''anharmonicity'' = Some (Some (Fin (- (1 / 2)))))"
proof -
  have len: "3 \<le> length [Fin 0, Fin 5, Fin (19 / 2)]" by simp
  show ?thesis using anharmonicity_formula [OF len] by simp
qed

text \<open>
  C5. \<^verbatim>\<open>calculate_gate_metrics\<close> raises ValueError ("Need at least 2 energy levels") on a
  sequence of length 0 or 1. On a sequence of length exactly 2 it returns a dictionary
  with the ground state energy \<open>e[0]\<close>, the transition frequency \<open>e[1] - e[0]\<close>, and the
  anharmonicity reported as None: the key holds no number, and no exception is raised.
\<close>

theorem gate_metrics_short_sequences:
  "(length e < 2 \<longrightarrow> calculate_gate_metrics e = Inl (ValueError NeedTwoLevels))
   \<and> (length e = 2 \<longrightarrow>
        (\<exists>m. calculate_gate_metrics e = Inr m
           \<and> m ''ground_state_energy'' = Some (Some (e ! 0))
           \<and> m ''transition_frequency'' = Some (Some (fsub (e ! 1) (e ! 0)))
           \<and> m ''anharmonicity'' = Some None))"
  by (simp add: calculate_gate_metrics_def Let_def)

theorem gate_metrics_short_sequences_witness:
  "calculate_gate_metrics [] = Inl (ValueError NeedTwoLevels)
   \<and> calculate_gate_metrics [Fin 3] = Inl (ValueError NeedTwoLevels)
   \<and> (\<exists>m. calculate_gate_metrics [Fin 3, Fin 8] = Inr m
         \<and> m ''ground_state_energy'' = Some (Some (Fin 3))
         \<and> m ''transition_frequency'' = Some (Some (Fin 5))
         \<and> m ''anharmonicity'' = Some None)"
  using gate_metrics_short_sequences [of "[]"]
    gate_metrics_short_sequences [of "[Fin 3]"]
    gate_metrics_short_sequences [of "[Fin 3, Fin 8]"]
  by simp

section \<open>Parameter validation\<close>

text \<open>
  C8. A flux outside the closed interval from 0 to 1 (a NaN included) makes
  \<^verbatim>\<open>validate_flux\<close> raise ValueError carrying the rejected value, and an energy that is
  zero or negative makes \<^verbatim>\<open>validate_energy\<close> raise ValueError carrying the parameter's
  name and the rejected value; neither function ever returns a replacement value.
  Conversely every flux in the interval, both end points included, and every positive
  energy is accepted with the result True.
\<close>

theorem validation_rejects_and_accepts:
  "(\<not> (0 \<le> x \<and> x \<le> 1) \<longrightarrow>
      validate_flux (Fin x) = Inl (ValueError (FluxOutOfRange (Fin x))))
   \<and> validate_flux NaN = Inl (ValueError (FluxOutOfRange NaN))
   \<and> (0 \<le> x \<and> x \<le> 1 \<longrightarrow> validate_flux (Fin x) = Inr True)
   \<and> (en \<le> 0 \<longrightarrow>
      validate_energy (Fin en) name = Inl (ValueError (NotPositive name (Fin en))))
   \<and> (0 < en \<longrightarrow> validate_energy (Fin en) name = Inr True)"
  by (simp add: validate_flux_def validate_energy_def)

theorem validation_rejects_and_accepts_witness:
  "validate_flux (Fin (3 / 2)) = Inl (ValueError (FluxOutOfRange (Fin (3 / 2))))
   \<and> validate_energy (Fin (- 1)) ''Ej'' = Inl (ValueError (NotPositive ''Ej'' (Fin (- 1))))
   \<and> validate_flux (Fin 0) = Inr True
   \<and> validate_flux (Fin 1) = Inr True
   \<and> validate_energy (Fin 10) ''Ej'' = Inr True"
  using validation_rejects_and_accepts [of "3 / 2" "- 1" "''Ej''"]
    validation_rejects_and_accepts [of 0 10 "''Ej''"]
    validation_rejects_and_accepts [of 1 10 "''Ej''"]
  by simp

section \<open>The minimum gap\<close>

subsection \<open>Order facts on floats and the minimum scan\<close>

lemma fle_trans: "fle a b \<Longrightarrow> fle b c \<Longrightarrow> fle a c"
  by (cases a; cases b; cases c) auto

lemma flt_fle_trans: "flt a b \<Longrightarrow> fle b c \<Longrightarrow> flt a c"
  by (cases a; cases b; cases c) auto

lemma fle_flt_trans: "fle a b \<Longrightarrow> flt b c \<Longrightarrow> flt a c"
  by (cases a; cases b; cases c) auto

lemma flt_imp_fle: "flt a b \<Longrightarrow> fle a b"
  by (cases a; cases b) auto

lemma fle_refl: "\<not> isnan a \<Longrightarrow> fle a a"
  by (cases a) auto

lemma not_fge_flt: "\<not> isnan a \<Longrightarrow> \<not> isnan b \<Longrightarrow> (\<not> fge a b) = flt a b"
  by (cases a; cases b) (auto simp: fge_def)

lemma fge_not_nan: "fge a b \<Longrightarrow> \<not> isnan a \<and> \<not> isnan b"
  by (cases a; cases b) (auto simp: fge_def)

lemma argmin_scan_range:
  "argmin_scan mp mi i xs = mi \<or> (i \<le> argmin_scan mp mi i xs \<and> argmin_scan mp mi i xs < i + length xs)"
proof (induction xs arbitrary: mp mi i)
  case Nil
  show ?case by simp
next
  case (Cons x xs)
  show ?case
    using Cons.IH [of mp mi "Suc i"] Cons.IH [of x i "Suc i"] by auto
qed

lemma argmin_scan_finite:
  assumes "\<not> isnan mp" "\<forall>x\<in>set xs. \<not> isnan x" "mi < i"
  shows "fle (scan_val mp mi i xs (argmin_scan mp mi i xs)) mp
       \<and> (\<forall>j<length xs. fle (scan_val mp mi i xs (argmin_scan mp mi i xs)) (xs ! j))
       \<and> (argmin_scan mp mi i xs \<noteq> mi \<longrightarrow>
            flt (scan_val mp mi i xs (argmin_scan mp mi i xs)) mp
            \<and> (\<forall>j<argmin_scan mp mi i xs - i. flt (scan_val mp mi i xs (argmin_scan mp mi i xs)) (xs ! j)))"
  using assms
proof (induction xs arbitrary: mp mi i)
  case Nil
  then show ?case by (simp add: fle_refl scan_val_def)
next
  case (Cons x xs)
  have nx: "\<not> isnan x" and nxs: "\<forall>y\<in>set xs. \<not> isnan y" using Cons.prems by auto
  show ?case
  proof (cases "fge x mp")
    case True
    let ?r = "argmin_scan mp mi (Suc i) xs"
    have lt: "mi < Suc i" using Cons.prems(3) by simp
    note IH = Cons.IH [OF Cons.prems(1) nxs lt]
    have r: "argmin_scan mp mi i (x # xs) = ?r" using True by simp
    have rng: "?r = mi \<or> (Suc i \<le> ?r \<and> ?r < Suc i + length xs)" by (rule argmin_scan_range)
    have v: "scan_val mp mi i (x # xs) ?r = scan_val mp mi (Suc i) xs ?r"
      using rng Cons.prems(3) by (auto simp: scan_val_def)
    let ?v = "scan_val mp mi (Suc i) xs ?r"
    have mpx: "fle mp x" using True by (simp add: fge_def)
    have a: "fle ?v mp" using IH by simp
    have b: "\<forall>j<length (x # xs). fle ?v ((x # xs) ! j)"
    proof (intro allI impI)
      fix j assume "j < length (x # xs)"
      then show "fle ?v ((x # xs) ! j)"
        using IH fle_trans [OF a mpx] by (cases j) auto
    qed
    have c: "?r \<noteq> mi \<longrightarrow> flt ?v mp \<and> (\<forall>j<?r - i. flt ?v ((x # xs) ! j))"
    proof (intro impI conjI allI)
      assume ne: "?r \<noteq> mi"
      then show "flt ?v mp" using IH by simp
      fix j assume j: "j < ?r - i"
      have "flt ?v x" using \<open>flt ?v mp\<close> mpx by (rule flt_fle_trans)
      moreover have "\<forall>j<?r - Suc i. flt ?v (xs ! j)" using IH ne by simp
      ultimately show "flt ?v ((x # xs) ! j)" using j by (cases j) auto
    qed
    show ?thesis unfolding r v using a b c by blast
  next
    case False
    let ?r = "argmin_scan x i (Suc i) xs"
    have lt: "i < Suc i" by simp
    note IH = Cons.IH [OF nx nxs lt]
    have r: "argmin_scan mp mi i (x # xs) = ?r" using False nx by simp
    have rng: "?r = i \<or> (Suc i \<le> ?r \<and> ?r < Suc i + length xs)" by (rule argmin_scan_range)
    have ne: "?r \<noteq> mi" using rng Cons.prems(3) by auto
    have v: "scan_val mp mi i (x # xs) ?r = scan_val x i (Suc i) xs ?r"
      using rng Cons.prems(3) by (auto simp: scan_val_def)
    let ?v = "scan_val x i (Suc i) xs ?r"
    have xmp: "flt x mp" using False nx Cons.prems(1) by (simp add: not_fge_flt)
    have vx: "fle ?v x" using IH by simp
    have a: "flt ?v mp" using vx xmp by (rule fle_flt_trans)
    have b: "\<forall>j<length (x # xs). fle ?v ((x # xs) ! j)"
    proof (intro allI impI)
      fix j assume "j < length (x # xs)"
      then show "fle ?v ((x # xs) ! j)"
        using IH vx by (cases j) auto
    qed
    have c: "\<forall>j<?r - i. flt ?v ((x # xs) ! j)"
    proof (intro allI impI)
      fix j assume j: "j < ?r - i"
      then have "?r \<noteq> i" by auto
      then have "flt ?v x" and "\<forall>j<?r - Suc i. flt ?v (xs ! j)" using IH by simp_all
      then show "flt ?v ((x # xs) ! j)" using j by (cases j) auto
    qed
    show ?thesis unfolding r v using a b c ne flt_imp_fle [OF a] by blast
  qed
qed

lemma argmin_scan_nan:
  assumes "\<not> isnan mp" "\<exists>x\<in>set xs. isnan x"
  shows "i \<le> argmin_scan mp mi i xs \<and> argmin_scan mp mi i xs < i + length xs
       \<and> isnan (xs ! (argmin_scan mp mi i xs - i))
       \<and> (\<forall>j<argmin_scan mp mi i xs - i. \<not> isnan (xs ! j))"
  using assms
proof (induction xs arbitrary: mp mi i)
  case Nil
  then show ?case by simp
next
  case (Cons x xs)
  show ?case
  proof (cases "isnan x")
    case True
    then have "\<not> fge x mp" using fge_not_nan by blast
    then show ?thesis using True by simp
  next
    case False
    then have ex: "\<exists>y\<in>set xs. isnan y" using Cons.prems(2) by auto
    have nth: "\<And>r j. Suc i \<le> r \<Longrightarrow> (x # xs) ! (r - i) = xs ! (r - Suc i)"
      by (simp add: Suc_diff_le)
    have pre: "\<And>r. Suc i \<le> r \<Longrightarrow> \<forall>j<r - Suc i. \<not> isnan (xs ! j) \<Longrightarrow> \<forall>j<r - i. \<not> isnan ((x # xs) ! j)"
    proof (intro allI impI)
      fix r j assume "Suc i \<le> r" "\<forall>j<r - Suc i. \<not> isnan (xs ! j)" "j < r - i"
      then show "\<not> isnan ((x # xs) ! j)" using False by (cases j) auto
    qed
    show ?thesis
    proof (cases "fge x mp")
      case True
      from Cons.IH [OF Cons.prems(1) ex, of "Suc i" mi] True
      show ?thesis using nth pre by auto
    next
      case nf: False
      from Cons.IH [OF False ex, of "Suc i" i] nf False
      show ?thesis using nth pre by auto
    qed
  qed
qed

lemma np_argmin_spec:
  assumes "xs \<noteq> []"
  shows "\<exists>k. np_argmin xs = Inr k \<and> k < length xs
    \<and> ((\<forall>x\<in>set xs. \<not> isnan x) \<longrightarrow>
          (\<forall>j<length xs. fle (xs ! k) (xs ! j)) \<and> (\<forall>j<k. flt (xs ! k) (xs ! j)))
    \<and> ((\<exists>x\<in>set xs. isnan x) \<longrightarrow> isnan (xs ! k) \<and> (\<forall>j<k. \<not> isnan (xs ! j)))"
proof -
  obtain x rest where xs: "xs = x # rest" using assms by (cases xs) auto
  show ?thesis
  proof (cases "isnan x")
    case True
    then show ?thesis by (auto simp: xs np_argmin_def)
  next
    case False
    let ?r = "argmin_scan x 0 1 rest"
    have k: "np_argmin xs = Inr ?r" using False by (simp add: xs np_argmin_def)
    have rng: "?r = 0 \<or> (1 \<le> ?r \<and> ?r < 1 + length rest)" by (rule argmin_scan_range)
    have val: "scan_val x 0 1 rest ?r = xs ! ?r"
      using rng by (auto simp: scan_val_def xs nth_Cons')
    have fin: "(\<forall>y\<in>set xs. \<not> isnan y) \<longrightarrow>
          (\<forall>j<length xs. fle (xs ! ?r) (xs ! j)) \<and> (\<forall>j<?r. flt (xs ! ?r) (xs ! j))"
    proof (intro impI)
      assume all: "\<forall>y\<in>set xs. \<not> isnan y"
      then have nrest: "\<forall>y\<in>set rest. \<not> isnan y" by (simp add: xs)
      have lt: "(0::nat) < 1" by simp
      note S = argmin_scan_finite [OF False nrest lt, unfolded val]
      have a: "\<forall>j<length xs. fle (xs ! ?r) (xs ! j)"
      proof (intro allI impI)
        fix j assume "j < length xs"
        then show "fle (xs ! ?r) (xs ! j)" using S by (cases j) (auto simp: xs)
      qed
      have b: "\<forall>j<?r. flt (xs ! ?r) (xs ! j)"
      proof (intro allI impI)
        fix j assume j: "j < ?r"
        then have "?r \<noteq> 0" by simp
        then show "flt (xs ! ?r) (xs ! j)" using S j by (cases j) (auto simp: xs)
      qed
      show "(\<forall>j<length xs. fle (xs ! ?r) (xs ! j)) \<and> (\<forall>j<?r. flt (xs ! ?r) (xs ! j))"
        using a b by simp
    qed
    have nan: "(\<exists>y\<in>set xs. isnan y) \<longrightarrow> isnan (xs ! ?r) \<and> (\<forall>j<?r. \<not> isnan (xs ! j))"
    proof (intro impI)
      assume "\<exists>y\<in>set xs. isnan y"
      then have ex: "\<exists>y\<in>set rest. isnan y" using False by (auto simp: xs)
      note S = argmin_scan_nan [OF False ex, of 1 0]
      have b: "\<forall>j<?r. \<not> isnan (xs ! j)"
      proof (intro allI impI)
        fix j assume j: "j < ?r"
        then show "\<not> isnan (xs ! j)" using S False by (cases j) (auto simp: xs)
      qed
      have "isnan (xs ! ?r)" using S by (auto simp: xs nth_Cons')
      then show "isnan (xs ! ?r) \<and> (\<forall>j<?r. \<not> isnan (xs ! j))" using b by simp
    qed
    have "?r < length xs" using rng by (auto simp: xs)
    then show ?thesis using k fin nan by blast
  qed
qed


lemma column_nat:
  "a < ncols E \<Longrightarrow> column E (int a) = Inr (map (\<lambda>r. r ! a) (rows E))"
  by (simp add: column_def np_index_def)

lemma gap_of_columns:
  "gap_of (map (\<lambda>r. r ! b) rs) (map (\<lambda>r. r ! a) rs) = map (\<lambda>r. fabs (fsub (r ! b) (r ! a))) rs"
  by (induction rs) (simp_all add: gap_of_def)

lemma plot_anti_crossing_argmin:
  assumes "a < ncols E" "b < ncols E" "length fv = length (rows E)"
    and "np_argmin (map (\<lambda>r. fabs (fsub (r ! b) (r ! a))) (rows E)) = Inr k" "k < length (rows E)"
  shows "plot_anti_crossing fv E (int a) (int b) =
     Inr \<lparr>min_gap = gap_at E a b k, min_gap_flux = fv ! k, min_gap_idx = k\<rparr>"
  using assms
  by (simp add: plot_anti_crossing_def column_nat ax_plot_def gap_of_columns gap_at_def)

subsection \<open>What the anti-crossing computation returns\<close>

text \<open>
  C6, as the code has it. For a sweep table with at least one point, a flux vector of the
  same length, and two level indices \<open>a\<close> and \<open>b\<close> below the table's width, the computation
  returns a position \<open>k\<close> of the table, the gap \<open>|E_b - E_a|\<close> at \<open>k\<close> and the flux at \<open>k\<close>.
  When no gap of the sweep is NaN, the gap at \<open>k\<close> is the minimum of all gaps and every
  earlier gap is strictly larger (the first occurrence wins a tie); a gap that is strictly
  below all the others is the one returned. When some gap is NaN (a sweep whose first
  point failed holds a NaN row), the position returned is that of the first NaN gap and
  the gap returned is NaN.
\<close>

theorem min_gap_first_minimum:
  assumes "a < ncols E" "b < ncols E" "rows E \<noteq> []" "length fv = length (rows E)"
  shows "\<exists>k<length (rows E).
     plot_anti_crossing fv E (int a) (int b) =
       Inr \<lparr>min_gap = gap_at E a b k, min_gap_flux = fv ! k, min_gap_idx = k\<rparr>
     \<and> ((\<forall>j<length (rows E). \<not> isnan (gap_at E a b j)) \<longrightarrow>
          (\<forall>j<length (rows E). fle (gap_at E a b k) (gap_at E a b j))
          \<and> (\<forall>j<k. flt (gap_at E a b k) (gap_at E a b j)))
     \<and> (\<forall>k0<length (rows E).
          (\<forall>j<length (rows E). j \<noteq> k0 \<longrightarrow> flt (gap_at E a b k0) (gap_at E a b j)) \<longrightarrow> k = k0)
     \<and> ((\<exists>j<length (rows E). isnan (gap_at E a b j)) \<longrightarrow>
          isnan (gap_at E a b k) \<and> (\<forall>j<k. \<not> isnan (gap_at E a b j)))"
proof -
  let ?g = "map (\<lambda>r. fabs (fsub (r ! b) (r ! a))) (rows E)"
  have ne: "?g \<noteq> []" using assms(3) by simp
  have len: "length ?g = length (rows E)" by simp
  have nth: "\<And>j. j < length (rows E) \<Longrightarrow> ?g ! j = gap_at E a b j"
    by (simp add: gap_at_def)
  have set_all: "(\<forall>x\<in>set ?g. \<not> isnan x) = (\<forall>j<length (rows E). \<not> isnan (gap_at E a b j))"
    unfolding all_set_conv_all_nth len using nth by auto
  have set_ex: "(\<exists>x\<in>set ?g. isnan x) = (\<exists>j<length (rows E). isnan (gap_at E a b j))"
    using set_all by blast
  from np_argmin_spec [OF ne] obtain k where k: "np_argmin ?g = Inr k" "k < length ?g"
    and fin: "(\<forall>x\<in>set ?g. \<not> isnan x) \<longrightarrow>
          (\<forall>j<length ?g. fle (?g ! k) (?g ! j)) \<and> (\<forall>j<k. flt (?g ! k) (?g ! j))"
    and nan: "(\<exists>x\<in>set ?g. isnan x) \<longrightarrow> isnan (?g ! k) \<and> (\<forall>j<k. \<not> isnan (?g ! j))"
    by blast
  have kl: "k < length (rows E)" using k(2) by simp
  have res: "plot_anti_crossing fv E (int a) (int b) =
       Inr \<lparr>min_gap = gap_at E a b k, min_gap_flux = fv ! k, min_gap_idx = k\<rparr>"
    by (rule plot_anti_crossing_argmin [OF assms(1,2,4) k(1) kl])
  have fin': "(\<forall>j<length (rows E). \<not> isnan (gap_at E a b j)) \<longrightarrow>
          (\<forall>j<length (rows E). fle (gap_at E a b k) (gap_at E a b j))
          \<and> (\<forall>j<k. flt (gap_at E a b k) (gap_at E a b j))"
    using fin kl unfolding set_all len by (auto simp: gap_at_def)
  have nan': "(\<exists>j<length (rows E). isnan (gap_at E a b j)) \<longrightarrow>
          isnan (gap_at E a b k) \<and> (\<forall>j<k. \<not> isnan (gap_at E a b j))"
    using nan kl unfolding set_ex by (auto simp: gap_at_def)
  have uniq: "\<forall>k0<length (rows E).
          (\<forall>j<length (rows E). j \<noteq> k0 \<longrightarrow> flt (gap_at E a b k0) (gap_at E a b j)) \<longrightarrow> k = k0"
  proof (intro allI impI)
    fix k0 assume k0: "k0 < length (rows E)"
      and u: "\<forall>j<length (rows E). j \<noteq> k0 \<longrightarrow> flt (gap_at E a b k0) (gap_at E a b j)"
    show "k = k0"
    proof (rule ccontr)
      assume neq: "k \<noteq> k0"
      then have lt: "flt (gap_at E a b k0) (gap_at E a b k)" using u kl by simp
      have nn: "\<forall>j<length (rows E). \<not> isnan (gap_at E a b j)"
      proof (intro allI impI)
        fix j assume j: "j < length (rows E)"
        show "\<not> isnan (gap_at E a b j)"
        proof (cases "j = k0")
          case True
          then show ?thesis using lt by (cases "gap_at E a b k0") auto
        next
          case False
          then have "flt (gap_at E a b k0) (gap_at E a b j)" using u j by simp
          then show ?thesis by (cases "gap_at E a b k0"; cases "gap_at E a b j") auto
        qed
      qed
      then have "fle (gap_at E a b k) (gap_at E a b k0)" using fin' k0 by simp
      then show False using lt by (cases "gap_at E a b k0"; cases "gap_at E a b k") auto
    qed
  qed
  show ?thesis using kl res fin' uniq nan' by blast
qed


theorem min_gap_first_minimum_witness:
  "plot_anti_crossing [Fin 0, Fin (1/2), Fin 1] \<lparr>ncols = 2, rows = [[Fin 0, Fin 5], [Fin 1, Fin 3], [Fin 1, Fin 3]]\<rparr> 0 1
   = Inr \<lparr>min_gap = Fin 2, min_gap_flux = Fin (1/2), min_gap_idx = 1\<rparr>"
proof -
  let ?E = "\<lparr>ncols = 2, rows = [[Fin 0, Fin 5], [Fin 1, Fin 3], [Fin 1, Fin 3]]\<rparr>"
  let ?fv = "[Fin 0, Fin (1/2), Fin 1]"
  have h: "0 < ncols ?E" "1 < ncols ?E" "rows ?E \<noteq> []" "length ?fv = length (rows ?E)" by simp_all
  have g: "gap_at ?E 0 1 0 = Fin 5" "gap_at ?E 0 1 1 = Fin 2" "gap_at ?E 0 1 2 = Fin 2"
    by (simp_all add: gap_at_def)
  have len: "length (rows ?E) = 3" by simp
  from min_gap_first_minimum [OF h] obtain k where k: "k < 3"
    and r: "plot_anti_crossing ?fv ?E (int 0) (int 1) = Inr \<lparr>min_gap = gap_at ?E 0 1 k, min_gap_flux = ?fv ! k, min_gap_idx = k\<rparr>"
    and u: "\<forall>k0<3. (\<forall>j<3. j \<noteq> k0 \<longrightarrow> flt (gap_at ?E 0 1 k0) (gap_at ?E 0 1 j)) \<longrightarrow> k = k0"
    and m: "(\<forall>j<3. \<not> isnan (gap_at ?E 0 1 j)) \<longrightarrow>
          (\<forall>j<3. fle (gap_at ?E 0 1 k) (gap_at ?E 0 1 j))
          \<and> (\<forall>j<k. flt (gap_at ?E 0 1 k) (gap_at ?E 0 1 j))"
    unfolding len by blast
  have three: "\<And>j::nat. j < 3 \<Longrightarrow> j = 0 \<or> j = 1 \<or> j = 2" by arith
  have nn: "\<forall>j<3. \<not> isnan (gap_at ?E 0 1 j)"
    using g three by fastforce
  from m nn have mn: "fle (gap_at ?E 0 1 k) (gap_at ?E 0 1 1)"
    and fst: "\<forall>j<k. flt (gap_at ?E 0 1 k) (gap_at ?E 0 1 j)" by simp_all
  have "k \<noteq> 0"
  proof
    assume "k = 0"
    then have "fle (gap_at ?E 0 1 0) (gap_at ?E 0 1 1)" using mn by simp
    then show False unfolding g by simp
  qed
  moreover have "k \<noteq> 2"
  proof
    assume "k = 2"
    then have "flt (gap_at ?E 0 1 2) (gap_at ?E 0 1 1)" using fst by simp
    then show False unfolding g by simp
  qed
  ultimately have "k = 1" using three [OF k] by simp
  then show ?thesis using r unfolding \<open>k = 1\<close> g by simp
qed

text \<open>
  The claim as stated, for every sweep result, fails on a table whose first row is the NaN
  row of a failed first point: the computation returns position 0 and the gap NaN, while
  the only numeric gap, 2 at position 1, is the minimum.
\<close>

theorem min_gap_nan_counterexample:
  "plot_anti_crossing [Fin 0, Fin 1] \<lparr>ncols = 2, rows = [[NaN, NaN], [Fin 1, Fin 3]]\<rparr> 0 1
     = Inr \<lparr>min_gap = NaN, min_gap_flux = Fin 0, min_gap_idx = 0\<rparr>
   \<and> gap_at \<lparr>ncols = 2, rows = [[NaN, NaN], [Fin 1, Fin 3]]\<rparr> 0 1 1 = Fin 2
   \<and> \<not> fle NaN (Fin 2)"
  by (simp add: plot_anti_crossing_def column_def np_index_def ax_plot_def gap_of_def
      np_argmin_def gap_at_def)

text \<open>
  C7, at two concrete queries on a table of width 2. A second level index that is too
  large is rejected with a ValueError naming it; a first level index that is too large is
  never checked and surfaces as the IndexError of the array access.
\<close>

theorem anti_crossing_level_checks:
  "plot_anti_crossing [Fin 0, Fin 1] \<lparr>ncols = 2, rows = [[Fin 0, Fin 5], [Fin 1, Fin 3]]\<rparr> 1 2
     = Inl (ValueError (LevelNotAvailable 2 1))
   \<and> plot_anti_crossing [Fin 0, Fin 1] \<lparr>ncols = 2, rows = [[Fin 0, Fin 5], [Fin 1, Fin 3]]\<rparr> 2 1
     = Inl IndexError"
  by (simp add: plot_anti_crossing_def column_def np_index_def)

section \<open>Single-point diagonalization\<close>

lemma diagonalize_hamiltonian_Inl:
  "fst (diagonalize_body L c n w) = Inl e \<Longrightarrow>
   fst (diagonalize_hamiltonian L c n w) = Inl (RuntimeError ''Error diagonalizing Hamiltonian'' e)"
  by (cases "diagonalize_body L c n w") (simp add: diagonalize_hamiltonian_def)

lemma diagonalize_hamiltonian_Inr:
  "fst (diagonalize_body L c n w) = Inr r \<Longrightarrow> fst (diagonalize_hamiltonian L c n w) = Inr r"
  by (cases "diagonalize_body L c n w") (simp add: diagonalize_hamiltonian_def)

lemma diagonalize_hamiltonian_snd:
  "snd (diagonalize_hamiltonian L c n w) = snd (diagonalize_body L c n w)"
  by (cases "diagonalize_body L c n w"; cases "fst (diagonalize_body L c n w)")
     (simp_all add: diagonalize_hamiltonian_def)

lemma diagonalize_body_None: "fst (diagonalize_body L None n w) = Inl (ValueError CircuitIsNone)"
  by (simp add: diagonalize_body_def)

lemma diagonalize_body_diag_raises:
  "configure_truncation L w = (Inr (), w1) \<Longrightarrow>
   sq_diag L (loop_value w1) n (lib w1) = (Inl e, h) \<Longrightarrow>
   fst (diagonalize_body L (Some c') n w) = Inl e"
  by (simp add: diagonalize_body_def call_diag_def)

text \<open>
  C9. Whatever goes wrong inside \<^verbatim>\<open>diagonalize_hamiltonian\<close>, the caller sees a
  RuntimeError whose cause is the exception that was raised inside: an exception that
  leaves the operation is always a RuntimeError wrapping what the body raised, and
  conversely every exception of the body leaves wrapped. In particular a None circuit
  gives a RuntimeError caused by the ValueError "Circuit object is None", and an exception
  \<open>e\<close> raised by the eigensolver gives a RuntimeError caused by \<open>e\<close>.
\<close>

theorem diagonalize_failures_wrapped:
  "(\<forall>x. fst (diagonalize_hamiltonian L c n w) = Inl x \<longrightarrow>
       (\<exists>cause. x = RuntimeError ''Error diagonalizing Hamiltonian'' cause
          \<and> fst (diagonalize_body L c n w) = Inl cause))
   \<and> (\<forall>cause. fst (diagonalize_body L c n w) = Inl cause \<longrightarrow>
        fst (diagonalize_hamiltonian L c n w)
          = Inl (RuntimeError ''Error diagonalizing Hamiltonian'' cause))
   \<and> fst (diagonalize_hamiltonian L None n w)
        = Inl (RuntimeError ''Error diagonalizing Hamiltonian'' (ValueError CircuitIsNone))
   \<and> (\<forall>c' w1 e h. configure_truncation L w = (Inr (), w1)
          \<and> sq_diag L (loop_value w1) n (lib w1) = (Inl e, h) \<longrightarrow>
        fst (diagonalize_hamiltonian L (Some c') n w)
          = Inl (RuntimeError ''Error diagonalizing Hamiltonian'' e))"
proof (intro conjI allI impI)
  fix x assume x: "fst (diagonalize_hamiltonian L c n w) = Inl x"
  show "\<exists>cause. x = RuntimeError ''Error diagonalizing Hamiltonian'' cause
          \<and> fst (diagonalize_body L c n w) = Inl cause"
  proof (cases "fst (diagonalize_body L c n w)")
    case (Inl cause)
    then show ?thesis using x diagonalize_hamiltonian_Inl [OF Inl] by simp
  next
    case (Inr r)
    then show ?thesis using x diagonalize_hamiltonian_Inr [OF Inr] by simp
  qed
next
  fix cause assume "fst (diagonalize_body L c n w) = Inl cause"
  then show "fst (diagonalize_hamiltonian L c n w)
          = Inl (RuntimeError ''Error diagonalizing Hamiltonian'' cause)"
    by (rule diagonalize_hamiltonian_Inl)
next
  show "fst (diagonalize_hamiltonian L None n w)
        = Inl (RuntimeError ''Error diagonalizing Hamiltonian'' (ValueError CircuitIsNone))"
    by (rule diagonalize_hamiltonian_Inl [OF diagonalize_body_None])
next
  fix c' w1 e h
  assume a: "configure_truncation L w = (Inr (), w1) \<and> sq_diag L (loop_value w1) n (lib w1) = (Inl e, h)"
  have cfg: "configure_truncation L w = (Inr (), w1)" using a by (rule conjunct1)
  have dg: "sq_diag L (loop_value w1) n (lib w1) = (Inl e, h)" using a by (rule conjunct2)
  have "fst (diagonalize_body L (Some c') n w) = Inl e"
    by (rule diagonalize_body_diag_raises [OF cfg dg])
  then show "fst (diagonalize_hamiltonian L (Some c') n w)
          = Inl (RuntimeError ''Error diagonalizing Hamiltonian'' e)"
    by (rule diagonalize_hamiltonian_Inl)
qed

theorem diagonalize_failures_wrapped_witness:
  "fst (diagonalize_hamiltonian flaky_lib None 2 idle_world)
     = Inl (RuntimeError ''Error diagonalizing Hamiltonian'' (ValueError CircuitIsNone))
  \<and> fst (diagonalize_hamiltonian flaky_lib (Some inverter_elements) 2
          (idle_world\<lparr>loop_value := (\<lambda>l. Fin 1)\<rparr>))
     = Inl (RuntimeError ''Error diagonalizing Hamiltonian'' (OtherError 0))"
proof -
  let ?w = "idle_world\<lparr>loop_value := (\<lambda>l. Fin 1)\<rparr>"
  have cfg: "configure_truncation flaky_lib ?w = (Inr (), ?w)"
    by (simp add: configure_truncation_def trunc_already_set_def flaky_lib_def)
  have dg: "sq_diag flaky_lib (loop_value ?w) 2 (lib ?w) = (Inl (OtherError 0), ())"
    by (simp add: flaky_lib_def)
  show ?thesis
    using diagonalize_failures_wrapped [of flaky_lib None 2 idle_world]
      diagonalize_failures_wrapped [of flaky_lib "Some inverter_elements" 2 ?w] cfg dg
    by blast
qed

section \<open>The flux sweep\<close>

subsection \<open>The loop values that library calls and the loop body leave behind\<close>

lemma call_set_trunc_nums_loop_value:
  "loop_value (snd (call_set_trunc_nums L ns w)) = loop_value w"
  by (simp add: call_set_trunc_nums_def split: prod.splits)

lemma call_update_loop_value: "loop_value (snd (call_update L w)) = loop_value w"
  by (simp add: call_update_def split: prod.splits)

lemma call_diag_loop_value: "loop_value (snd (call_diag L n w)) = loop_value w"
  by (simp add: call_diag_def split: prod.splits)

lemma configure_truncation_loop_value:
  "loop_value (snd (configure_truncation L w)) = loop_value w"
proof (cases "trunc_already_set L (lib w)")
  case True
  then show ?thesis by (simp add: configure_truncation_def)
next
  case False
  obtain r1 w1 where c1: "call_set_trunc_nums L [50] w = (r1, w1)" by (cases "call_set_trunc_nums L [50] w")
  obtain r2 w2 where c2: "call_set_trunc_nums L [50, 50] w1 = (r2, w2)"
    by (cases "call_set_trunc_nums L [50, 50] w1")
  have l1: "loop_value w1 = loop_value w" using call_set_trunc_nums_loop_value [of L "[50]" w] c1 by simp
  have l2: "loop_value w2 = loop_value w1" using call_set_trunc_nums_loop_value [of L "[50, 50]" w1] c2 by simp
  show ?thesis using False c1 c2 l1 l2
    by (simp add: configure_truncation_def split: sum.splits exn.splits)
qed

lemma diagonalize_body_loop_value:
  "loop_value (snd (diagonalize_body L c n w)) = loop_value w"
proof (cases c)
  case None
  then show ?thesis by (simp add: diagonalize_body_def)
next
  case (Some c')
  obtain r1 w1 where c1: "configure_truncation L w = (r1, w1)" by (cases "configure_truncation L w")
  obtain r2 w2 where c2: "call_diag L n w1 = (r2, w2)" by (cases "call_diag L n w1")
  have l1: "loop_value w1 = loop_value w" using configure_truncation_loop_value [of L w] c1 by simp
  have l2: "loop_value w2 = loop_value w1" using call_diag_loop_value [of L n w1] c2 by simp
  show ?thesis using Some c1 c2 l1 l2
    by (simp add: diagonalize_body_def split: sum.splits prod.splits)
qed

lemma sweep_point_loop_value:
  "loop_value (snd (sweep_point L c loop n fv w)) = (loop_value w)(loop := fv)"
proof -
  let ?w0 = "w\<lparr>loop_value := (loop_value w)(loop := fv)\<rparr>"
  obtain r1 w1 where c1: "call_update L ?w0 = (r1, w1)" by (cases "call_update L ?w0")
  obtain r2 w2 where c2: "diagonalize_hamiltonian L (Some c) n w1 = (r2, w2)"
    by (cases "diagonalize_hamiltonian L (Some c) n w1")
  have l1: "loop_value w1 = (loop_value w)(loop := fv)"
    using call_update_loop_value [of L ?w0] c1 by simp
  have l2: "loop_value w2 = loop_value w1"
    using diagonalize_body_loop_value [of L "Some c" n w1] diagonalize_hamiltonian_snd [of L "Some c" n w1] c2
    by simp
  show ?thesis using c1 c2 l1 l2
    by (simp add: sweep_point_def Let_def split: sum.splits prod.splits)
qed

lemma sweep_loop_loop_value:
  "loop_value (snd (sweep_loop L c loop n ivs tbl w)) =
     (if ivs = [] then loop_value w else (loop_value w)(loop := snd (last ivs)))"
proof (induction ivs arbitrary: tbl w)
  case Nil
  show ?case by simp
next
  case (Cons iv rest)
  obtain i fv where iv: "iv = (i, fv)" by (cases iv)
  obtain r w1 where sp: "sweep_point L c loop n fv w = (r, w1)" by (cases "sweep_point L c loop n fv w")
  have l1: "loop_value w1 = (loop_value w)(loop := fv)"
    using sweep_point_loop_value [of L c loop n fv w] sp by simp
  show ?case
  proof (cases r)
    case (Inl e)
    then show ?thesis using iv sp l1 Cons.IH [of "recover_row tbl i" w1]
      by (auto simp: fun_eq_iff)
  next
    case (Inr energies)
    then show ?thesis using iv sp l1
        Cons.IH [of "store_row tbl i (nat (min n (int (length energies)))) energies" w1]
      by (auto simp: Let_def fun_eq_iff)
  qed
qed


subsection \<open>Rows of the table, one loop step at a time\<close>

lemma store_row_shape:
  "ncols (store_row a i m e) = ncols a \<and> length (rows (store_row a i m e)) = length (rows a)"
  by (simp add: store_row_def)

lemma recover_row_shape:
  "ncols (recover_row a i) = ncols a \<and> length (rows (recover_row a i)) = length (rows a)"
  by (simp add: recover_row_def)

lemma store_row_other: "j \<noteq> i \<Longrightarrow> rows (store_row a i m e) ! j = rows a ! j"
  by (simp add: store_row_def)

lemma recover_row_other: "j \<noteq> i \<Longrightarrow> rows (recover_row a i) ! j = rows a ! j"
  by (simp add: recover_row_def)

lemma recover_row_at:
  "i < length (rows a) \<Longrightarrow>
   rows (recover_row a i) ! i = (if 0 < i then rows a ! (i - 1) else map (\<lambda>x. NaN) (rows a ! i))"
proof (cases "0 < i")
  case True
  assume "i < length (rows a)"
  then show ?thesis using True unfolding recover_row_def by (simp del: One_nat_def)
next
  case False
  assume "i < length (rows a)"
  then show ?thesis using False unfolding recover_row_def by simp
qed







lemma sweep_loop_step:
  assumes "sweep_point L c loop n fv w = (r, w1)"
  shows "sweep_loop L c loop n (enumerate k (fv # rest)) tbl w
     = sweep_loop L c loop n (enumerate (Suc k) rest) (next_table n tbl k r) w1"
  using assms by (cases r) (simp_all add: next_table_def Let_def)

lemma next_table_shape:
  "ncols (next_table n tbl k r) = ncols tbl"
  "length (rows (next_table n tbl k r)) = length (rows tbl)"
  by (cases r; simp add: next_table_def store_row_shape recover_row_shape)+

lemma next_table_other: "j \<noteq> k \<Longrightarrow> rows (next_table n tbl k r) ! j = rows tbl ! j"
  by (cases r) (simp_all add: next_table_def store_row_other recover_row_other)


lemma sweep_loop_shape:
  "ncols (fst (sweep_loop L c loop n (enumerate k fvs) tbl w)) = ncols tbl
   \<and> length (rows (fst (sweep_loop L c loop n (enumerate k fvs) tbl w))) = length (rows tbl)
   \<and> (\<forall>j<k. rows (fst (sweep_loop L c loop n (enumerate k fvs) tbl w)) ! j = rows tbl ! j)"
proof (induction fvs arbitrary: k tbl w)
  case Nil
  show ?case by simp
next
  case (Cons fv rest)
  obtain r w1 where sp: "sweep_point L c loop n fv w = (r, w1)" by (cases "sweep_point L c loop n fv w")
  note IH = Cons.IH [of "Suc k" "next_table n tbl k r" w1]
  have "\<forall>j<k. rows (next_table n tbl k r) ! j = rows tbl ! j"
    by (simp add: next_table_other)
  then show ?case unfolding sweep_loop_step [OF sp] using IH
    by (simp add: next_table_shape)
qed


lemma sweep_loop_recovery:
  assumes "k + length fvs \<le> length (rows tbl)"
  shows "\<forall>i<length fvs. isl (sweep_outcomes L c loop n fvs w ! i) \<longrightarrow>
     rows (fst (sweep_loop L c loop n (enumerate k fvs) tbl w)) ! (k + i) =
       (if 0 < k + i then rows (fst (sweep_loop L c loop n (enumerate k fvs) tbl w)) ! (k + i - 1)
        else map (\<lambda>x. NaN) (rows tbl ! 0))"
  using assms
proof (induction fvs arbitrary: k tbl w)
  case Nil
  show ?case by simp
next
  case (Cons fv rest)
  obtain r w1 where sp: "sweep_point L c loop n fv w = (r, w1)" by (cases "sweep_point L c loop n fv w")
  let ?tbl1 = "next_table n tbl k r"
  let ?T = "fst (sweep_loop L c loop n (enumerate (Suc k) rest) ?tbl1 w1)"
  have outs: "sweep_outcomes L c loop n (fv # rest) w = r # sweep_outcomes L c loop n rest w1"
    using sp by simp
  have bound: "Suc k + length rest \<le> length (rows ?tbl1)"
    using Cons.prems by (simp add: next_table_shape)
  note IH = Cons.IH [OF bound, of w1]
  have frame: "\<forall>j<Suc k. rows ?T ! j = rows ?tbl1 ! j"
    using sweep_loop_shape [of L c loop n "Suc k" rest ?tbl1 w1] by simp
  show ?case unfolding sweep_loop_step [OF sp] outs
  proof (intro allI impI)
    fix i assume i: "i < length (fv # rest)" and f: "isl ((r # sweep_outcomes L c loop n rest w1) ! i)"
    show "rows ?T ! (k + i) = (if 0 < k + i then rows ?T ! (k + i - 1) else map (\<lambda>x. NaN) (rows tbl ! 0))"
    proof (cases i)
      case 0
      then have "isl r" using f by simp
      then have t1: "?tbl1 = recover_row tbl k" by (cases r) (simp_all add: next_table_def)
      have kl: "k < length (rows tbl)" using Cons.prems by simp
      have a: "rows ?T ! k = rows (recover_row tbl k) ! k" using frame t1 by simp
      show ?thesis
      proof (cases "0 < k")
        case True
        have "k - 1 < Suc k" by simp
        then have "rows ?T ! (k - 1) = rows ?tbl1 ! (k - 1)" using frame by blast
        also have "\<dots> = rows tbl ! (k - 1)" using True by (intro next_table_other) simp
        finally have b: "rows ?T ! (k - 1) = rows tbl ! (k - 1)" .
        have "rows (recover_row tbl k) ! k = rows tbl ! (k - 1)"
          using recover_row_at [OF kl] True by simp
        then show ?thesis using a b True 0 by simp
      next
        case False
        have "rows (recover_row tbl k) ! k = map (\<lambda>x. NaN) (rows tbl ! k)"
          using recover_row_at [OF kl] False by simp
        then show ?thesis using a False 0 by simp
      qed
    next
      case (Suc i')
      then have "i' < length rest" "isl (sweep_outcomes L c loop n rest w1 ! i')" using i f by simp_all
      then have "rows ?T ! (Suc k + i') = rows ?T ! (Suc k + i' - 1)" using IH by simp
      then show ?thesis using Suc by simp
    qed
  qed
qed

subsection \<open>The grid, and the run of a call that passes the checks\<close>

lemma valid_range_Fin:
  assumes "valid_range lo hi"
  obtains a b where "lo = Fin a" "hi = Fin b" "0 \<le> a" "a < b" "b \<le> 1"
  using assms by (cases lo; cases hi) (auto simp: valid_range_def)

lemma np_linspace_length:
  assumes "0 \<le> n"
  shows "\<exists>fvs. np_linspace lo hi n = Inr fvs \<and> length fvs = nat n"
proof (cases "nat n = 0 \<or> nat n = 1")
  case True
  then show ?thesis using assms by (auto simp: np_linspace_def)
next
  case False
  then show ?thesis using assms by (simp add: np_linspace_def Let_def)
qed

lemma np_linspace_one: "np_linspace lo hi 1 = Inr [lo]"
  by (simp add: np_linspace_def)


lemma np_linspace_last:
  assumes "2 \<le> n" "np_linspace lo hi n = Inr fvs"
  shows "last fvs = hi"
proof -
  let ?m = "nat n"
  have m: "2 \<le> ?m" using assms(1) by simp
  let ?y = "map (\<lambda>i. fadd (fmul (Fin (real i)) (fdiv (fsub hi lo) (Fin (real (?m - 1))))) lo) [0..<?m]"
  have fvs: "fvs = ?y[?m - 1 := hi]"
    using assms m by (simp add: np_linspace_def Let_def)
  have len: "length fvs = ?m" by (simp add: fvs)
  have ne: "fvs \<noteq> []" using len m by auto
  have "last fvs = fvs ! (?m - 1)" using last_conv_nth [OF ne] len by simp
  also have "\<dots> = hi" using m by (simp add: fvs)
  finally show ?thesis .
qed

lemma np_zeros_ok:
  "0 \<le> n \<Longrightarrow> 0 \<le> m \<Longrightarrow>
   np_zeros n m = Inr \<lparr>ncols = nat m, rows = replicate (nat n) (replicate (nat m) (Fin 0))\<rparr>"
  by (simp add: np_zeros_def)

lemma flux_sweep_fst:
  "fst (flux_sweep_body L c fr np nl w) = Inl e \<Longrightarrow>
   fst (flux_sweep L c fr np nl w) = Inl (RuntimeError ''Error during flux sweep'' e)"
  "fst (flux_sweep_body L c fr np nl w) = Inr r \<Longrightarrow> fst (flux_sweep L c fr np nl w) = Inr r"
  by (cases "flux_sweep_body L c fr np nl w"; simp add: flux_sweep_def)+

lemma flux_sweep_snd: "snd (flux_sweep L c fr np nl w) = snd (flux_sweep_body L c fr np nl w)"
  by (cases "flux_sweep_body L c fr np nl w"; cases "fst (flux_sweep_body L c fr np nl w)")
     (simp_all add: flux_sweep_def)

lemma flux_sweep_body_runs:
  assumes "range_or_default fr = (lo, hi)" "valid_range lo hi" "0 \<le> n_points" "0 \<le> n_levels"
    and "find_flux_loop c = Some loop" "np_linspace lo hi n_points = Inr fvs"
  shows "flux_sweep_body L (Some c) fr n_points n_levels w =
     (Inr (fvs, fst (sweep_loop L c loop n_levels (enumerate 0 fvs)
                \<lparr>ncols = nat n_levels, rows = replicate (nat n_points) (replicate (nat n_levels) (Fin 0))\<rparr> w)),
      snd (sweep_loop L c loop n_levels (enumerate 0 fvs)
                \<lparr>ncols = nat n_levels, rows = replicate (nat n_points) (replicate (nat n_levels) (Fin 0))\<rparr> w))"
  using assms
  by (simp add: flux_sweep_body_def np_zeros_ok split: prod.splits)

lemma flux_sweep_runs:
  assumes "range_or_default fr = (lo, hi)" "valid_range lo hi" "0 \<le> n_points" "0 \<le> n_levels"
    and "find_flux_loop c = Some loop" "np_linspace lo hi n_points = Inr fvs"
  shows "flux_sweep L (Some c) fr n_points n_levels w =
     (Inr (fvs, fst (sweep_loop L c loop n_levels (enumerate 0 fvs)
                \<lparr>ncols = nat n_levels, rows = replicate (nat n_points) (replicate (nat n_levels) (Fin 0))\<rparr> w)),
      snd (sweep_loop L c loop n_levels (enumerate 0 fvs)
                \<lparr>ncols = nat n_levels, rows = replicate (nat n_points) (replicate (nat n_levels) (Fin 0))\<rparr> w))"
  unfolding flux_sweep_def flux_sweep_body_runs [OF assms] by simp

lemma flux_sweep_rejects:
  assumes "range_or_default fr = (lo, hi)"
  shows "\<not> valid_range lo hi \<Longrightarrow> flux_sweep L c fr n_points n_levels w =
        (Inl (RuntimeError ''Error during flux sweep'' (ValueError (InvalidFluxRange lo hi))), w)"
    and "valid_range lo hi \<Longrightarrow> n_points < 0 \<Longrightarrow> flux_sweep L c fr n_points n_levels w =
        (Inl (RuntimeError ''Error during flux sweep'' (ValueError (NegativeSamples n_points))), w)"
    and "valid_range lo hi \<Longrightarrow> 0 \<le> n_points \<Longrightarrow> n_levels < 0 \<Longrightarrow> flux_sweep L c fr n_points n_levels w =
        (Inl (RuntimeError ''Error during flux sweep'' (ValueError NegativeDimensions)), w)"
proof -
  show "\<not> valid_range lo hi \<Longrightarrow> flux_sweep L c fr n_points n_levels w =
        (Inl (RuntimeError ''Error during flux sweep'' (ValueError (InvalidFluxRange lo hi))), w)"
    using assms by (simp add: flux_sweep_def flux_sweep_body_def)
  show "valid_range lo hi \<Longrightarrow> n_points < 0 \<Longrightarrow> flux_sweep L c fr n_points n_levels w =
        (Inl (RuntimeError ''Error during flux sweep'' (ValueError (NegativeSamples n_points))), w)"
    using assms by (simp add: flux_sweep_def flux_sweep_body_def np_linspace_def)
  assume v: "valid_range lo hi" and n: "0 \<le> n_points" and l: "n_levels < 0"
  obtain fvs where f: "np_linspace lo hi n_points = Inr fvs" using np_linspace_length [OF n] by blast
  show "flux_sweep L c fr n_points n_levels w =
        (Inl (RuntimeError ''Error during flux sweep'' (ValueError NegativeDimensions)), w)"
    using assms v l f by (simp add: flux_sweep_def flux_sweep_body_def np_zeros_def)
qed

subsection \<open>Evaluating a sweep on the concrete circuit\<close>

lemmas sweep_eval =
  flux_sweep_def flux_sweep_body_def range_or_default_def valid_range_def np_linspace_def
  np_zeros_def find_flux_loop_def inverter_elements_def sweep_point_def call_update_def
  call_diag_def diagonalize_hamiltonian_def diagonalize_body_def configure_truncation_def
  trunc_already_set_def store_row_def recover_row_def idle_world_def Let_def enumerate_eq_zip

lemma demo_hyps:
  "range_or_default (Some (Fin 0, Fin 1)) = (Fin 0, Fin 1)"
  "valid_range (Fin 0) (Fin 1)"
  "find_flux_loop inverter_elements = Some 0"
  by (simp_all add: range_or_default_def valid_range_def find_flux_loop_def inverter_elements_def)

subsection \<open>Recovery, shape, rejection and the flux left behind\<close>

text \<open>
  C1. On a valid flux range, with a flux loop in the circuit and counts that are not
  negative, the sweep returns a table with one row per sample whatever fails. A sample
  \<open>i\<close> whose loop body raised (the update or the diagonalization failed) has, for
  \<open>i > 0\<close>, a row equal to the row at \<open>i - 1\<close> as it stands in the returned table, and for
  \<open>i = 0\<close> a row holding NaN in each of its \<open>n_levels\<close> slots.
\<close>

theorem sweep_recovery_policy:
  assumes "range_or_default fr = (lo, hi)" "valid_range lo hi" "0 \<le> n_points" "0 \<le> n_levels"
    and "find_flux_loop c = Some loop"
  shows "\<exists>fvs tbl w'. flux_sweep L (Some c) fr n_points n_levels w = (Inr (fvs, tbl), w')
     \<and> length fvs = nat n_points \<and> length (rows tbl) = nat n_points
     \<and> (\<forall>i<nat n_points. isl (sweep_outcomes L c loop n_levels fvs w ! i) \<longrightarrow>
          (if 0 < i then rows tbl ! i = rows tbl ! (i - 1)
           else rows tbl ! i = replicate (nat n_levels) NaN))"
proof -
  obtain fvs where f: "np_linspace lo hi n_points = Inr fvs" and len: "length fvs = nat n_points"
    using np_linspace_length [OF assms(3)] by blast
  let ?Z = "\<lparr>ncols = nat n_levels, rows = replicate (nat n_points) (replicate (nat n_levels) (Fin 0))\<rparr>"
  let ?T = "fst (sweep_loop L c loop n_levels (enumerate 0 fvs) ?Z w)"
  let ?W = "snd (sweep_loop L c loop n_levels (enumerate 0 fvs) ?Z w)"
  have run: "flux_sweep L (Some c) fr n_points n_levels w = (Inr (fvs, ?T), ?W)"
    by (rule flux_sweep_runs [OF assms f])
  have rows: "length (rows ?T) = nat n_points"
    using sweep_loop_shape [of L c loop n_levels 0 fvs ?Z w] by simp
  have bound: "0 + length fvs \<le> length (rows ?Z)" using len by simp
  note R = sweep_loop_recovery [OF bound, of L c loop n_levels w]
  have rec: "\<forall>i<nat n_points. isl (sweep_outcomes L c loop n_levels fvs w ! i) \<longrightarrow>
          (if 0 < i then rows ?T ! i = rows ?T ! (i - 1)
           else rows ?T ! i = replicate (nat n_levels) NaN)"
  proof (intro allI impI)
    fix i assume i: "i < nat n_points" and fl: "isl (sweep_outcomes L c loop n_levels fvs w ! i)"
    have r: "rows ?T ! (0 + i) = (if 0 < 0 + i then rows ?T ! (0 + i - 1) else map (\<lambda>x. NaN) (rows ?Z ! 0))"
      using R i fl len by simp
    show "if 0 < i then rows ?T ! i = rows ?T ! (i - 1) else rows ?T ! i = replicate (nat n_levels) NaN"
    proof (cases "0 < i")
      case True
      then show ?thesis using r by simp
    next
      case False
      then have i0: "i = 0" by simp
      have "rows ?Z ! 0 = replicate (nat n_levels) (Fin 0)" using i by simp
      then have "map (\<lambda>x. NaN) (rows ?Z ! 0) = replicate (nat n_levels) NaN" by simp
      then show ?thesis using r i0 by simp
    qed
  qed
  show ?thesis using run len rows rec by blast
qed

theorem sweep_recovery_policy_witness:
  "(\<exists>fvs tbl w'. flux_sweep flaky_lib (Some inverter_elements) (Some (Fin 0, Fin 1)) 5 2 idle_world
        = (Inr (fvs, tbl), w')
      \<and> length fvs = nat 5 \<and> length (rows tbl) = nat 5
      \<and> (\<forall>i<nat 5. isl (sweep_outcomes flaky_lib inverter_elements 0 2 fvs idle_world ! i) \<longrightarrow>
            (if 0 < i then rows tbl ! i = rows tbl ! (i - 1) else rows tbl ! i = replicate (nat 2) NaN)))
   \<and> fst (flux_sweep flaky_lib (Some inverter_elements) (Some (Fin 0, Fin 1)) 5 2 idle_world)
      = Inr ([Fin 0, Fin (1 / 4), Fin (1 / 2), Fin (3 / 4), Fin 1],
             \<lparr>ncols = 2,
                rows = [[NaN, NaN], [NaN, NaN], [Fin (1 / 2), Fin (3 / 2)],
                        [Fin (3 / 4), Fin (7 / 4)], [Fin (3 / 4), Fin (7 / 4)]]\<rparr>)
   \<and> map isl (sweep_outcomes flaky_lib inverter_elements 0 2
                 [Fin 0, Fin (1 / 4), Fin (1 / 2), Fin (3 / 4), Fin 1] idle_world)
      = [True, True, False, False, True]"
proof -
  have n: "(0::int) \<le> 5" "(0::int) \<le> 2" by simp_all
  have a: "\<exists>fvs tbl w'. flux_sweep flaky_lib (Some inverter_elements) (Some (Fin 0, Fin 1)) 5 2 idle_world
        = (Inr (fvs, tbl), w')
      \<and> length fvs = nat 5 \<and> length (rows tbl) = nat 5
      \<and> (\<forall>i<nat 5. isl (sweep_outcomes flaky_lib inverter_elements 0 2 fvs idle_world ! i) \<longrightarrow>
            (if 0 < i then rows tbl ! i = rows tbl ! (i - 1) else rows tbl ! i = replicate (nat 2) NaN))"
    by (rule sweep_recovery_policy [OF demo_hyps(1,2) n demo_hyps(3)])
  have b: "fst (flux_sweep flaky_lib (Some inverter_elements) (Some (Fin 0, Fin 1)) 5 2 idle_world)
      = Inr ([Fin 0, Fin (1 / 4), Fin (1 / 2), Fin (3 / 4), Fin 1],
             \<lparr>ncols = 2,
                rows = [[NaN, NaN], [NaN, NaN], [Fin (1 / 2), Fin (3 / 2)],
                        [Fin (3 / 4), Fin (7 / 4)], [Fin (3 / 4), Fin (7 / 4)]]\<rparr>)"
    by (simp add: sweep_eval flaky_lib_def eval_nat_numeral)
  have c: "map isl (sweep_outcomes flaky_lib inverter_elements 0 2
                 [Fin 0, Fin (1 / 4), Fin (1 / 2), Fin (3 / 4), Fin 1] idle_world)
      = [True, True, False, False, True]"
    by (simp add: sweep_eval flaky_lib_def)
  show ?thesis using a b c by blast
qed

text \<open>
  C2, as the code has it. An invalid flux range makes the sweep raise before anything
  else happens: the exception is a RuntimeError whose cause is the ValueError naming the
  range, and the state is the one the call started with (no loop value set, no library
  call made). Neither count is checked up front; a negative count is rejected by NumPy
  when the grid or the table is allocated, again wrapped and with the state untouched.
\<close>

theorem sweep_rejects_before_work:
  assumes "range_or_default fr = (lo, hi)"
    and "\<not> valid_range lo hi \<or> n_points < 0 \<or> n_levels < 0"
  shows "\<exists>m. flux_sweep L c fr n_points n_levels w =
        (Inl (RuntimeError ''Error during flux sweep'' (ValueError m)), w)
     \<and> (\<not> valid_range lo hi \<longrightarrow> m = InvalidFluxRange lo hi)"
proof (cases "valid_range lo hi")
  case False
  then show ?thesis using flux_sweep_rejects(1) [OF assms(1)] by blast
next
  case True
  show ?thesis
  proof (cases "n_points < 0")
    case n: True
    then show ?thesis using flux_sweep_rejects(2) [OF assms(1) True] True by blast
  next
    case False
    then have "0 \<le> n_points" "n_levels < 0" using assms(2) True by auto
    then show ?thesis using flux_sweep_rejects(3) [OF assms(1) True] True by blast
  qed
qed

theorem sweep_rejects_before_work_witness:
  "flux_sweep flaky_lib (Some inverter_elements) (Some (Fin 0, Fin (3 / 2))) 5 2 idle_world
     = (Inl (RuntimeError ''Error during flux sweep''
              (ValueError (InvalidFluxRange (Fin 0) (Fin (3 / 2))))), idle_world)
   \<and> (\<exists>m. flux_sweep flaky_lib (Some inverter_elements) (Some (Fin 0, Fin 1)) (- 1) 2 idle_world
        = (Inl (RuntimeError ''Error during flux sweep'' (ValueError m)), idle_world))"
proof -
  have r: "range_or_default (Some (Fin 0, Fin (3 / 2))) = (Fin 0, Fin (3 / 2))"
    by (simp add: range_or_default_def)
  have nv: "\<not> valid_range (Fin 0) (Fin (3 / 2))" by (simp add: valid_range_def)
  then have h: "\<not> valid_range (Fin 0) (Fin (3 / 2)) \<or> (5::int) < 0 \<or> (2::int) < 0" by simp
  have h2: "\<not> valid_range (Fin 0) (Fin 1) \<or> (- 1::int) < 0 \<or> (2::int) < 0" by simp
  show ?thesis
    using sweep_rejects_before_work [OF r h, of flaky_lib "Some inverter_elements" idle_world]
      sweep_rejects_before_work [OF demo_hyps(1) h2, of flaky_lib "Some inverter_elements" idle_world]
      nv
    by auto
qed

text \<open>
  The claim as stated also demands an exception for \<open>n_points < 1\<close> and for
  \<open>level_count < 1\<close>. With zero points the sweep returns an empty grid and an empty table
  and raises nothing; with zero levels it returns the grid and rows without slots.
\<close>

theorem sweep_zero_points_counterexample:
  "flux_sweep steady_lib (Some inverter_elements) (Some (Fin 0, Fin 1)) 0 5 idle_world
     = (Inr ([], \<lparr>ncols = 5, rows = []\<rparr>), idle_world)
   \<and> fst (flux_sweep steady_lib (Some inverter_elements) (Some (Fin 0, Fin 1)) 2 0 idle_world)
     = Inr ([Fin 0, Fin 1], \<lparr>ncols = 0, rows = [[], []]\<rparr>)"
  by (simp add: sweep_eval steady_lib_def eval_nat_numeral)




text \<open>
  C10, as the code has it. After a sweep of at least one point the loop that was found
  holds the last sample of the grid, whatever value it held before, and no other loop is
  touched: the last sample is \<open>hi\<close> when there are two or more points and \<open>lo\<close> when
  there is one.
\<close>

theorem sweep_leaves_last_sample:
  assumes "range_or_default fr = (lo, hi)" "valid_range lo hi" "1 \<le> n_points" "0 \<le> n_levels"
    and "find_flux_loop c = Some loop"
  shows "loop_value (snd (flux_sweep L (Some c) fr n_points n_levels w))
       = (loop_value w)(loop := (if n_points = 1 then lo else hi))"
proof -
  have n0: "0 \<le> n_points" using assms(3) by simp
  obtain fvs where f: "np_linspace lo hi n_points = Inr fvs" and len: "length fvs = nat n_points"
    using np_linspace_length [OF n0] by blast
  let ?Z = "\<lparr>ncols = nat n_levels, rows = replicate (nat n_points) (replicate (nat n_levels) (Fin 0))\<rparr>"
  have run: "snd (flux_sweep L (Some c) fr n_points n_levels w)
      = snd (sweep_loop L c loop n_levels (enumerate 0 fvs) ?Z w)"
    unfolding flux_sweep_runs [OF assms(1,2) n0 assms(4,5) f] by simp
  have ne: "fvs \<noteq> []" using len assms(3) by auto
  then have ene: "enumerate 0 fvs \<noteq> []" by (cases fvs) simp_all
  have "last (enumerate 0 fvs) = (length fvs - 1, last fvs)"
    using ne by (simp add: enumerate_eq_zip last_zip last_conv_nth)
  then have sl: "snd (last (enumerate 0 fvs)) = last fvs" by simp
  have lastv: "last fvs = (if n_points = 1 then lo else hi)"
  proof (cases "n_points = 1")
    case True
    then have "fvs = [lo]" using f np_linspace_one [of lo hi] by simp
    then show ?thesis using True by simp
  next
    case False
    then have "2 \<le> n_points" using assms(3) by simp
    then show ?thesis using np_linspace_last [OF _ f] False by simp
  qed
  show ?thesis unfolding run sweep_loop_loop_value using ene sl lastv by simp
qed

theorem sweep_leaves_last_sample_witness:
  "loop_value (snd (flux_sweep steady_lib (Some inverter_elements) (Some (Fin 0, Fin 1)) 5 2 idle_world))
     = (loop_value idle_world)(0 := Fin 1)
   \<and> loop_value (snd (flux_sweep steady_lib (Some inverter_elements) (Some (Fin 0, Fin 1)) 1 2 idle_world))
     = (loop_value idle_world)(0 := Fin 0)"
proof -
  have n: "(1::int) \<le> 5" "(0::int) \<le> 2" "(1::int) \<le> 1" by simp_all
  show ?thesis
    using sweep_leaves_last_sample [OF demo_hyps(1,2) n(1,2) demo_hyps(3), of steady_lib idle_world]
      sweep_leaves_last_sample [OF demo_hyps(1,2) n(3,2) demo_hyps(3), of steady_lib idle_world]
    by simp
qed

text \<open>
  The claim as stated leaves the loop at \<open>hi\<close>. After a sweep of a single point over
  the range from 0 to 1 the loop holds 0.
\<close>

theorem sweep_single_sample_flux_counterexample:
  "loop_value (snd (flux_sweep steady_lib (Some inverter_elements) (Some (Fin 0, Fin 1)) 1 2 idle_world)) 0
     = Fin 0
   \<and> Fin 0 \<noteq> Fin 1"
  by (simp add: sweep_eval steady_lib_def)

end
